theory Spec2Isabelle
  imports Complex_Main
begin

section \<open>Values read from the earthquake feed\<close>

text \<open>
  The script \<^verbatim>\<open>static/js/logic.js\<close> reads magnitudes and coordinates out of a parsed
  JSON document. A numeric slot of such a document holds a number, holds \<^verbatim>\<open>null\<close>, or is
  absent, in which case reading it gives \<^verbatim>\<open>undefined\<close>. A number of the document is a
  finite double, taken here as the real it denotes. Comparisons of doubles are exact, so
  they are comparisons of reals.
\<close>

datatype jsval = Undefined | Null | Num real

text \<open>
  The relational operators convert their operands to numbers first. \<^verbatim>\<open>undefined\<close>
  converts to NaN (here \<open>None\<close>), \<^verbatim>\<open>null\<close> to 0, and every comparison with NaN is false.
\<close>

fun ToNumber :: "jsval \<Rightarrow> real option" where
  "ToNumber Undefined = None"
| "ToNumber Null = Some 0"
| "ToNumber (Num r) = Some r"

definition js_le :: "jsval \<Rightarrow> real \<Rightarrow> bool" where
  "js_le v k = (case ToNumber v of None \<Rightarrow> False | Some r \<Rightarrow> r \<le> k)"

section \<open>The two derivation functions\<close>

text \<open>
  \<^verbatim>\<open>const getMarkerSize = (magnitude) => magnitude > 0 ? magnitude ** 7 : 1;\<close>
  The power is only taken on the branch where the comparison held, so where the operand
  converted to a number. The script's \<^verbatim>\<open>**\<close> is the power of doubles: its result is
  rounded, is 0 on underflow and Infinity on overflow. Doubles are not modelled; the
  power below is the exact one, which is the script's value only where the exact power is
  what \<^verbatim>\<open>**\<close> returns, as at \<open>4.5\<close>, where \<open>4.5^7 = 4782969/128\<close> is a double. No
  property of the size of an arbitrary positive magnitude is drawn from this definition.
\<close>

definition getMarkerSize :: "jsval \<Rightarrow> real" where
  "getMarkerSize magnitude =
     (case ToNumber magnitude of
        None \<Rightarrow> 1
      | Some m \<Rightarrow> if m > 0 then m ^ 7 else 1)"

text \<open>
  \<^verbatim>\<open>
  const getColorByDepth = (depth) => {
    if (depth <= 10) return "#98EE00";
    if (depth <= 30) return "#D4EE00";
    if (depth <= 50) return "#EECC00";
    if (depth <= 70) return "#EE9C00";
    if (depth <= 90) return "#EA822C";
    return "#EA2C2C";
  };
  \<close>
\<close>

definition getColorByDepth :: "jsval \<Rightarrow> string" where
  "getColorByDepth depth =
     (if js_le depth 10 then ''#98EE00''
      else if js_le depth 30 then ''#D4EE00''
      else if js_le depth 50 then ''#EECC00''
      else if js_le depth 70 then ''#EE9C00''
      else if js_le depth 90 then ''#EA822C''
      else ''#EA2C2C'')"

section \<open>Earthquake features\<close>

text \<open>
  A feature of the feed is
  \<^verbatim>\<open>{ geometry: { coordinates: [lon, lat, depth] }, properties: { mag, title } }\<close>.
  A member the script dereferences may be missing (or \<^verbatim>\<open>null\<close>); that is \<open>None\<close> here.
  \<open>title\<close> is a string and \<open>coordinates\<close>, when present, is an array.
\<close>

record properties =
  mag :: jsval
  title :: string

record geometry =
  coordinates :: "jsval list option"

record feature =
  geometry :: "geometry option"
  properties :: "properties option"

text \<open>Reading an array past its end gives \<^verbatim>\<open>undefined\<close>.\<close>

definition at_index :: "jsval list \<Rightarrow> nat \<Rightarrow> jsval" where
  "at_index xs i = (if i < length xs then xs ! i else Undefined)"

text \<open>Reading a member of \<^verbatim>\<open>undefined\<close> or \<^verbatim>\<open>null\<close> throws.\<close>

datatype error = TypeError

section \<open>Layers of the mapping library\<close>

text \<open>
  The constructors of the mapping library are kept as data: a layer records the position,
  the options and the popup it was given. What the library does with them (validation,
  clustering, drawing) is outside the script.
\<close>

record 'o layer =
  latlng :: "jsval list"
  options :: 'o
  popup :: "string option"

record circle_options =
  fillOpacity :: real
  color :: string
  fillColor :: string
  radius :: real

definition L_marker :: "jsval list \<Rightarrow> unit layer" where
  "L_marker coords = \<lparr>latlng = coords, options = (), popup = None\<rparr>"

definition L_circle :: "jsval list \<Rightarrow> circle_options \<Rightarrow> circle_options layer" where
  "L_circle coords opts = \<lparr>latlng = coords, options = opts, popup = None\<rparr>"

definition bindPopup :: "'o layer \<Rightarrow> string \<Rightarrow> 'o layer" where
  "bindPopup l content = l\<lparr>popup := Some content\<rparr>"

record heat_options =
  heat_radius :: nat
  blur :: nat

record heat_layer =
  points :: "jsval list list"
  heat_opts :: heat_options

definition L_heatLayer :: "jsval list list \<Rightarrow> heat_options \<Rightarrow> heat_layer" where
  "L_heatLayer pts opts = \<lparr>points = pts, heat_opts = opts\<rparr>"

record path_style =
  style_color :: string
  weight :: nat

record 'g geo_layer =
  geojson :: 'g
  style :: path_style

definition L_geoJSON :: "'g \<Rightarrow> path_style \<Rightarrow> 'g geo_layer" where
  "L_geoJSON d st = \<lparr>geojson = d, style = st\<rparr>"

section \<open>The feature transform of createMap\<close>

text \<open>The three collections the loop fills: the cluster group, and two arrays.\<close>

record collections =
  markerCluster :: "unit layer list"
  heatPoints :: "jsval list list"
  circleMarkers :: "circle_options layer list"

text \<open>
  The body of the loop (lines 36 to 59):
  \<^verbatim>\<open>
  const { geometry, properties } = item;
  if (geometry) {
    const coordinates = [geometry.coordinates[1], geometry.coordinates[0]];
    const magnitude = properties.mag;
    const depth = geometry.coordinates[2];
    const marker = L.marker(coordinates).bindPopup(`<h1>${properties.title}</h1>`);
    markerCluster.addLayer(marker);
    heatPoints.push(coordinates);
    const circle = L.circle(coordinates, {
      fillOpacity: 0.75,
      color: getColorByDepth(depth),
      fillColor: getColorByDepth(depth),
      radius: getMarkerSize(magnitude)
    }).bindPopup(`<h1>${properties.title}</h1>`);
    circleMarkers.push(circle);
  }
  \<close>
\<close>

definition forEach_callback :: "collections \<Rightarrow> feature \<Rightarrow> error + collections" where
  "forEach_callback s item =
     (case geometry item of
        None \<Rightarrow> Inr s
      | Some g \<Rightarrow>
          (case coordinates g of
             None \<Rightarrow> Inl TypeError
           | Some cs \<Rightarrow>
               (case properties item of
                  None \<Rightarrow> Inl TypeError
                | Some p \<Rightarrow>
                    (let coords = [at_index cs 1, at_index cs 0];
                         magnitude = mag p;
                         depth = at_index cs 2;
                         marker = bindPopup (L_marker coords) (''<h1>'' @ title p @ ''</h1>'');
                         circle = bindPopup
                           (L_circle coords
                              \<lparr>fillOpacity = 0.75,
                               color = getColorByDepth depth,
                               fillColor = getColorByDepth depth,
                               radius = getMarkerSize magnitude\<rparr>)
                           (''<h1>'' @ title p @ ''</h1>'')
                     in Inr \<lparr>markerCluster = markerCluster s @ [marker],
                             heatPoints = heatPoints s @ [coords],
                             circleMarkers = circleMarkers s @ [circle]\<rparr>))))"

text \<open>\<^verbatim>\<open>earthquakeData.forEach(...)\<close>: an exception thrown by the callback ends the loop.\<close>

fun forEach :: "('s \<Rightarrow> 'a \<Rightarrow> error + 's) \<Rightarrow> 's \<Rightarrow> 'a list \<Rightarrow> error + 's" where
  "forEach f s [] = Inr s"
| "forEach f s (item # items) =
     (case f s item of
        Inl e \<Rightarrow> Inl e
      | Inr s' \<Rightarrow> forEach f s' items)"

text \<open>
  \<^verbatim>\<open>createMap\<close> hands four overlays to the layer control:
  \<^verbatim>\<open>
  const overlayLayers = {
    "Earthquake Markers": markerCluster,
    "Heatmap": heatLayer,
    "Circles": L.layerGroup(circleMarkers),
    "Tectonic Plates": geoLayer
  };
  \<close>
  with \<^verbatim>\<open>heatLayer = L.heatLayer(heatPoints, { radius: 25, blur: 20 })\<close> and
  \<^verbatim>\<open>geoLayer = L.geoJSON(geoJsonData, { style: { color: "firebrick", weight: 5 } })\<close>.
  The tile layers, the map object, the layer control and the legend are built from
  constants only and are not part of the model.
\<close>

record 'g overlayLayers =
  earthquake_markers :: "unit layer list"
  heatmap :: heat_layer
  circles :: "circle_options layer list"
  tectonic_plates :: "'g geo_layer"

definition createMap :: "feature list \<Rightarrow> 'g \<Rightarrow> error + 'g overlayLayers" where
  "createMap earthquakeData geoJsonData =
     (case forEach forEach_callback
             \<lparr>markerCluster = [], heatPoints = [], circleMarkers = []\<rparr> earthquakeData of
        Inl e \<Rightarrow> Inl e
      | Inr s \<Rightarrow>
          (let heatLayer = L_heatLayer (heatPoints s) \<lparr>heat_radius = 25, blur = 20\<rparr>;
               geoLayer = L_geoJSON geoJsonData \<lparr>style_color = ''firebrick'', weight = 5\<rparr>
           in Inr \<lparr>earthquake_markers = markerCluster s,
                   heatmap = heatLayer,
                   circles = circleMarkers s,
                   tectonic_plates = geoLayer\<rparr>))"

section \<open>Data acquisition\<close>

text \<open>
  \<^verbatim>\<open>
  d3.json(earthquakeUrl).then((earthquakeResponse) => {
    d3.json(tectonicUrl).then((tectonicResponse) => {
      const earthquakeData = earthquakeResponse.features;
      createMap(earthquakeData, tectonicResponse);
    });
  });
  \<close>
  A parsed document is its \<^verbatim>\<open>features\<close> member and the rest of its content. The network
  answers a request with a parsed document, or never resolves it (\<open>None\<close>). The run of
  \<^verbatim>\<open>fetchData\<close> is the sequence of the events it causes, in the order they happen.
\<close>

record 'd json =
  features :: "feature list"
  content :: 'd

datatype 'd event =
    Request string
  | Resolved string "'d json"
  | CreateMap "feature list" "'d json"

definition earthquakeUrl :: string where
  "earthquakeUrl = ''https://earthquake.usgs.gov/earthquakes/feed/v1.0/summary/all_week.geojson''"

definition tectonicUrl :: string where
  "tectonicUrl = ''https://raw.githubusercontent.com/fraxen/tectonicplates/master/GeoJSON/PB2002_boundaries.json''"

text \<open>
  \<^verbatim>\<open>d3.json(url).then(callback)\<close>: the request is issued at once; the callback runs with
  the parsed response once the request has resolved, and not at all otherwise.
\<close>

definition d3_json_then ::
  "(string \<Rightarrow> 'd json option) \<Rightarrow> string \<Rightarrow> ('d json \<Rightarrow> 'd event list) \<Rightarrow> 'd event list" where
  "d3_json_then net url callback =
     Request url #
     (case net url of
        None \<Rightarrow> []
      | Some response \<Rightarrow> Resolved url response # callback response)"

definition fetchData :: "(string \<Rightarrow> 'd json option) \<Rightarrow> 'd event list" where
  "fetchData net =
     d3_json_then net earthquakeUrl (\<lambda>earthquakeResponse.
       d3_json_then net tectonicUrl (\<lambda>tectonicResponse.
         (let earthquakeData = features earthquakeResponse
          in [CreateMap earthquakeData tectonicResponse])))"

section \<open>Vocabulary of the properties\<close>

text \<open>
  A feature is drawn when its \<open>geometry\<close> member is present. It is well formed, in the
  sense of the feed's data model, when a present geometry carries a coordinate array and
  comes with a \<open>properties\<close> object.
\<close>

definition has_geometry :: "feature \<Rightarrow> bool" where
  "has_geometry f = (geometry f \<noteq> None)"

definition well_formed :: "feature \<Rightarrow> bool" where
  "well_formed f =
     (case geometry f of
        None \<Rightarrow> True
      | Some g \<Rightarrow> coordinates g \<noteq> None \<and> properties f \<noteq> None)"

text \<open>The members of a feature, with a default where the member is missing.\<close>

definition coords_of :: "feature \<Rightarrow> jsval list" where
  "coords_of f =
     (case geometry f of
        None \<Rightarrow> []
      | Some g \<Rightarrow> (case coordinates g of None \<Rightarrow> [] | Some cs \<Rightarrow> cs))"

definition title_of :: "feature \<Rightarrow> string" where
  "title_of f = (case properties f of None \<Rightarrow> [] | Some p \<Rightarrow> title p)"

definition mag_of :: "feature \<Rightarrow> jsval" where
  "mag_of f = (case properties f of None \<Rightarrow> Undefined | Some p \<Rightarrow> mag p)"

text \<open>What a drawn feature is expected to contribute: latitude first, then longitude.\<close>

definition position :: "feature \<Rightarrow> jsval list" where
  "position f = [at_index (coords_of f) 1, at_index (coords_of f) 0]"

definition marker_of :: "feature \<Rightarrow> unit layer" where
  "marker_of f =
     \<lparr>latlng = position f, options = (),
      popup = Some (''<h1>'' @ title_of f @ ''</h1>'')\<rparr>"

definition circle_of :: "feature \<Rightarrow> circle_options layer" where
  "circle_of f =
     \<lparr>latlng = position f,
      options = \<lparr>fillOpacity = 0.75,
                 color = getColorByDepth (at_index (coords_of f) 2),
                 fillColor = getColorByDepth (at_index (coords_of f) 2),
                 radius = getMarkerSize (mag_of f)\<rparr>,
      popup = Some (''<h1>'' @ title_of f @ ''</h1>'')\<rparr>"

text \<open>Sample inputs: the feature of the end-to-end scenario, and two incomplete ones.\<close>

definition bay_area :: feature where
  "bay_area =
     \<lparr>geometry = Some \<lparr>coordinates = Some [Num (-122.4), Num 37.8, Num 5]\<rparr>,
      properties = Some \<lparr>mag = Num 4.5, title = ''M 4.5 - Bay Area''\<rparr>\<rparr>"

definition no_geometry :: feature where
  "no_geometry =
     \<lparr>geometry = None, properties = Some \<lparr>mag = Num 2, title = ''M 2.0 - Nowhere''\<rparr>\<rparr>"

definition no_properties :: feature where
  "no_properties =
     \<lparr>geometry = Some \<lparr>coordinates = Some [Num 10, Num 20, Num 30]\<rparr>, properties = None\<rparr>"

text \<open>
  Events of a run are ordered by their place in the list. \<open>only_after Q P xs\<close>: no event
  satisfying \<open>Q\<close> happens before the first event satisfying \<open>P\<close>, and none at all when
  no event satisfies \<open>P\<close>.
\<close>

fun is_Request :: "string \<Rightarrow> 'd event \<Rightarrow> bool" where
  "is_Request u (Request v) = (u = v)"
| "is_Request u _ = False"

fun is_Resolved :: "string \<Rightarrow> 'd event \<Rightarrow> bool" where
  "is_Resolved u (Resolved v r) = (u = v)"
| "is_Resolved u _ = False"

fun is_CreateMap :: "'d event \<Rightarrow> bool" where
  "is_CreateMap (CreateMap e t) = True"
| "is_CreateMap _ = False"

definition only_after :: "('a \<Rightarrow> bool) \<Rightarrow> ('a \<Rightarrow> bool) \<Rightarrow> 'a list \<Rightarrow> bool" where
  "only_after Q P xs = list_all (\<lambda>x. \<not> Q x) (takeWhile (\<lambda>x. \<not> P x) xs)"

text \<open>A network on which both requests resolve.\<close>

definition both_resolve :: "string \<Rightarrow> unit json option" where
  "both_resolve url =
     (if url = earthquakeUrl then Some \<lparr>features = [bay_area], content = ()\<rparr>
      else if url = tectonicUrl then Some \<lparr>features = [], content = ()\<rparr>
      else None)"

section \<open>Auxiliary facts\<close>

lemma js_le_Num: "js_le (Num d) k = (d \<le> k)"
  by (simp add: js_le_def)

lemma callback_skip: "geometry f = None \<Longrightarrow> forEach_callback s f = Inr s"
  by (simp add: forEach_callback_def)

lemma callback_draw:
  "has_geometry f \<Longrightarrow> well_formed f \<Longrightarrow>
   forEach_callback s f =
     Inr \<lparr>markerCluster = markerCluster s @ [marker_of f],
          heatPoints = heatPoints s @ [position f],
          circleMarkers = circleMarkers s @ [circle_of f]\<rparr>"
  by (auto simp: forEach_callback_def has_geometry_def well_formed_def marker_of_def
        circle_of_def position_def coords_of_def title_of_def mag_of_def
        L_marker_def L_circle_def bindPopup_def Let_def split: option.splits)

lemma callback_throw: "\<not> well_formed f \<Longrightarrow> forEach_callback s f = Inl TypeError"
  by (auto simp: forEach_callback_def well_formed_def split: option.splits)

text \<open>The loop on well-formed features: one entry per drawn feature, in input order.\<close>

lemma forEach_well_formed:
  "\<forall>f\<in>set fs. well_formed f \<Longrightarrow>
   forEach forEach_callback s fs =
     Inr \<lparr>markerCluster = markerCluster s @ map marker_of (filter has_geometry fs),
          heatPoints = heatPoints s @ map position (filter has_geometry fs),
          circleMarkers = circleMarkers s @ map circle_of (filter has_geometry fs)\<rparr>"
proof (induction fs arbitrary: s)
  case Nil
  show ?case by simp
next
  case (Cons f fs)
  show ?case
  proof (cases "has_geometry f")
    case True
    with Cons.prems have "forEach_callback s f =
       Inr \<lparr>markerCluster = markerCluster s @ [marker_of f],
            heatPoints = heatPoints s @ [position f],
            circleMarkers = circleMarkers s @ [circle_of f]\<rparr>"
      by (simp add: callback_draw)
    with Cons True show ?thesis by simp
  next
    case False
    then have "forEach_callback s f = Inr s"
      by (simp add: callback_skip has_geometry_def)
    with Cons False show ?thesis by simp
  qed
qed

text \<open>The loop on a list with an ill-formed feature: the exception leaves the loop.\<close>

lemma forEach_ill_formed:
  "f \<in> set fs \<Longrightarrow> \<not> well_formed f \<Longrightarrow> forEach forEach_callback s fs = Inl TypeError"
proof (induction fs arbitrary: s)
  case Nil
  then show ?case by simp
next
  case (Cons x xs)
  show ?case
  proof (cases "forEach_callback s x")
    case (Inl e)
    then show ?thesis by (cases e) simp
  next
    case (Inr s')
    with Cons.prems have "x \<noteq> f" by (auto simp: callback_throw)
    with Cons Inr show ?thesis by simp
  qed
qed

lemma createMap_Inr_well_formed:
  assumes "createMap fs g = Inr v"
  shows "\<forall>f\<in>set fs. well_formed f"
proof (rule ccontr)
  assume "\<not> (\<forall>f\<in>set fs. well_formed f)"
  then obtain f where "f \<in> set fs" and "\<not> well_formed f" by blast
  then have "forEach forEach_callback
               \<lparr>markerCluster = [], heatPoints = [], circleMarkers = []\<rparr> fs = Inl TypeError"
    by (rule forEach_ill_formed)
  with assms show False by (simp add: createMap_def)
qed

lemma urls_differ: "earthquakeUrl \<noteq> tectonicUrl"
  by (simp add: earthquakeUrl_def tectonicUrl_def)

section \<open>The feature transform: counts and order\<close>




section \<open>The derivation functions\<close>

text \<open>
  C3. For every depth \<open>d\<close> the colour is the six-bucket step function with inclusive upper
  bounds 10, 30, 50, 70 and 90; depth 10 is green, depth 90 is orange-red, depth 70 is
  \<^verbatim>\<open>#EE9C00\<close> and depth 70.01 is \<^verbatim>\<open>#EA822C\<close>.
\<close>

theorem getColorByDepth_buckets:
  "(d \<le> 10 \<longrightarrow> getColorByDepth (Num d) = ''#98EE00'')
   \<and> (10 < d \<and> d \<le> 30 \<longrightarrow> getColorByDepth (Num d) = ''#D4EE00'')
   \<and> (30 < d \<and> d \<le> 50 \<longrightarrow> getColorByDepth (Num d) = ''#EECC00'')
   \<and> (50 < d \<and> d \<le> 70 \<longrightarrow> getColorByDepth (Num d) = ''#EE9C00'')
   \<and> (70 < d \<and> d \<le> 90 \<longrightarrow> getColorByDepth (Num d) = ''#EA822C'')
   \<and> (d > 90 \<longrightarrow> getColorByDepth (Num d) = ''#EA2C2C'')
   \<and> getColorByDepth (Num 10) = ''#98EE00''
   \<and> getColorByDepth (Num 10) \<noteq> ''#D4EE00''
   \<and> getColorByDepth (Num 90) = ''#EA822C''
   \<and> getColorByDepth (Num 90) \<noteq> ''#EA2C2C''
   \<and> getColorByDepth (Num 70) = ''#EE9C00''
   \<and> getColorByDepth (Num 70.01) = ''#EA822C''"
  by (simp add: getColorByDepth_def js_le_Num)

theorem getColorByDepth_buckets_witness:
  "(10::real) < 20 \<and> (20::real) \<le> 30 \<and> getColorByDepth (Num 20) = ''#D4EE00''
   \<and> (100::real) > 90 \<and> getColorByDepth (Num 100) = ''#EA2C2C''"
  using getColorByDepth_buckets [of 20] getColorByDepth_buckets [of 100] by simp

text \<open>
  C4, as stated: every negative depth is red. It is not: the first test
  \<^verbatim>\<open>depth <= 10\<close> already holds for a negative depth, so depth \<open>-5\<close> is green.
\<close>

theorem negative_depth_red_counterexample:
  "getColorByDepth (Num (-5)) = ''#98EE00'' \<and> getColorByDepth (Num (-5)) \<noteq> ''#EA2C2C''"
  by (simp add: getColorByDepth_def js_le_Num)

text \<open>
  C4, amended. Every negative depth is green, the colour of the first bucket
  \<open>d \<le> 10\<close> (the legend labels that bucket "-10 to 10"); among numbers the final
  \<^verbatim>\<open>return\<close> is reached exactly by the depths above 90.
\<close>

theorem negative_depth_green:
  "(d < 0 \<longrightarrow> getColorByDepth (Num d) = ''#98EE00'')
   \<and> (getColorByDepth (Num d) = ''#EA2C2C'' \<longleftrightarrow> d > 90)"
  by (simp add: getColorByDepth_def js_le_Num)

theorem negative_depth_green_witness:
  "(-5::real) < 0 \<and> getColorByDepth (Num (-5)) = ''#98EE00'' \<and> \<not> (-5::real) > 90"
  using negative_depth_green [of "-5"] by simp

section \<open>The end-to-end scenario\<close>

text \<open>
  C5, as stated: the circle of the Bay Area feature has a radius of about 37367.7. The
  radius is \<open>4.5^7 = 37366.9453125\<close>, more than 0.75 away from the stated figure.
\<close>

theorem bay_area_radius_counterexample:
  "radius (options (hd (circles (projr (createMap [bay_area] ()))))) = 37366.9453125
   \<and> \<bar>radius (options (hd (circles (projr (createMap [bay_area] ()))))) - 37367.7\<bar> > 0.75"
  by (simp add: createMap_def forEach_callback_def bay_area_def at_index_def
        L_marker_def L_circle_def bindPopup_def L_heatLayer_def L_geoJSON_def
        getColorByDepth_def js_le_def getMarkerSize_def Let_def eval_nat_numeral)

text \<open>
  C5, amended. For the single feature with coordinates \<open>[-122.4, 37.8, 5]\<close>, magnitude
  4.5 and title "M 4.5 - Bay Area", the transform yields one marker at \<open>[37.8, -122.4]\<close>
  (latitude before longitude) whose popup is the title between \<^verbatim>\<open><h1>\<close> tags, one heat
  point at the same place, and one circle of colour \<^verbatim>\<open>#98EE00\<close> with the same popup and
  with radius \<open>4.5^7 = 37366.9453125\<close>.
\<close>

theorem bay_area_scenario:
  "createMap [bay_area] g =
     Inr \<lparr>earthquake_markers =
            [\<lparr>latlng = [Num 37.8, Num (-122.4)], options = (),
              popup = Some ''<h1>M 4.5 - Bay Area</h1>''\<rparr>],
          heatmap = \<lparr>points = [[Num 37.8, Num (-122.4)]],
                     heat_opts = \<lparr>heat_radius = 25, blur = 20\<rparr>\<rparr>,
          circles =
            [\<lparr>latlng = [Num 37.8, Num (-122.4)],
              options = \<lparr>fillOpacity = 0.75, color = ''#98EE00'', fillColor = ''#98EE00'',
                         radius = 37366.9453125\<rparr>,
              popup = Some ''<h1>M 4.5 - Bay Area</h1>''\<rparr>],
          tectonic_plates =
            \<lparr>geojson = g, style = \<lparr>style_color = ''firebrick'', weight = 5\<rparr>\<rparr>\<rparr>
   \<and> (4.5::real) ^ 7 = 37366.9453125
   \<and> ''<h1>M 4.5 - Bay Area</h1>'' = ''<h1>'' @ title_of bay_area @ ''</h1>''"
  by (simp add: createMap_def forEach_callback_def bay_area_def at_index_def title_of_def
        L_marker_def L_circle_def bindPopup_def L_heatLayer_def L_geoJSON_def
        getColorByDepth_def js_le_def getMarkerSize_def Let_def eval_nat_numeral)

section \<open>Popups\<close>

text \<open>
  C6. Whenever the transform returns, the popup of the circle of each feature with a
  geometry is the popup of its marker, and both are the feature's title between
  \<^verbatim>\<open><h1>\<close> and \<^verbatim>\<open></h1>\<close>, so both contain the title.
\<close>

theorem popups_identical:
  assumes "createMap fs g = Inr v"
  shows "map popup (circles v) = map popup (earthquake_markers v)
         \<and> map popup (circles v)
             = map (\<lambda>f. Some (''<h1>'' @ title_of f @ ''</h1>'')) (filter has_geometry fs)"
proof -
  from assms have wf: "\<forall>f\<in>set fs. well_formed f"
    by (rule createMap_Inr_well_formed)
  from forEach_well_formed [OF wf] assms
  have "earthquake_markers v = map marker_of (filter has_geometry fs)"
    and "circles v = map circle_of (filter has_geometry fs)"
    by (auto simp: createMap_def Let_def)
  then show ?thesis
    by (simp add: marker_of_def circle_of_def comp_def)
qed

theorem popups_identical_witness:
  "map popup (circles (projr (createMap [no_geometry, bay_area] ())))
     = [Some ''<h1>M 4.5 - Bay Area</h1>'']
   \<and> map popup (earthquake_markers (projr (createMap [no_geometry, bay_area] ())))
     = [Some ''<h1>M 4.5 - Bay Area</h1>'']"
proof -
  have wf: "\<forall>f\<in>set [no_geometry, bay_area]. well_formed f"
    by (simp add: well_formed_def no_geometry_def bay_area_def)
  have "\<exists>v. createMap [no_geometry, bay_area] () = Inr v"
    using forEach_well_formed [OF wf] by (simp add: createMap_def Let_def)
  then have run: "createMap [no_geometry, bay_area] ()
                    = Inr (projr (createMap [no_geometry, bay_area] ()))"
    by auto
  have k: "filter has_geometry [no_geometry, bay_area] = [bay_area]"
    by (simp add: has_geometry_def no_geometry_def bay_area_def)
  have t: "title_of bay_area = ''M 4.5 - Bay Area''"
    by (simp add: title_of_def bay_area_def)
  note inst = popups_identical [OF run, unfolded k]
  from inst [THEN conjunct2]
  have c: "map popup (circles (projr (createMap [no_geometry, bay_area] ())))
             = [Some ''<h1>M 4.5 - Bay Area</h1>'']"
    by (simp add: t)
  from inst [THEN conjunct1] c show ?thesis by simp
qed

section \<open>Plate boundaries\<close>

text \<open>
  C7. Whenever createMap builds its overlays, the tectonic-plate layer holds the boundary
  document exactly as it was passed in, whatever the earthquake features are, and its
  style is the fixed one: colour "firebrick", weight 5.
\<close>

theorem boundaries_passed_through:
  "createMap fs g = Inr v \<Longrightarrow>
   geojson (tectonic_plates v) = g
   \<and> style (tectonic_plates v) = \<lparr>style_color = ''firebrick'', weight = 5\<rparr>"
  by (auto simp: createMap_def L_geoJSON_def Let_def split: sum.splits)

theorem boundaries_passed_through_witness:
  "geojson (tectonic_plates (projr (createMap [bay_area] ''PB2002''))) = ''PB2002''
   \<and> style_color (style (tectonic_plates (projr (createMap [bay_area] ''PB2002''))))
       = ''firebrick''
   \<and> weight (style (tectonic_plates (projr (createMap [bay_area] ''PB2002'')))) = 5"
proof -
  have wf: "\<forall>f\<in>set [bay_area]. well_formed f"
    by (simp add: well_formed_def bay_area_def)
  have "\<exists>v. createMap [bay_area] ''PB2002'' = Inr v"
    using forEach_well_formed [OF wf] by (simp add: createMap_def Let_def)
  then have run: "createMap [bay_area] ''PB2002''
                    = Inr (projr (createMap [bay_area] ''PB2002''))"
    by auto
  from boundaries_passed_through [OF run] show ?thesis by simp
qed

section \<open>The empty feed\<close>

text \<open>
  C8. On the empty list of features the transform returns without an error, and the
  marker, heat-point and circle collections are empty.
\<close>

theorem empty_feature_list:
  "createMap [] g =
     Inr \<lparr>earthquake_markers = [],
          heatmap = \<lparr>points = [], heat_opts = \<lparr>heat_radius = 25, blur = 20\<rparr>\<rparr>,
          circles = [],
          tectonic_plates =
            \<lparr>geojson = g, style = \<lparr>style_color = ''firebrick'', weight = 5\<rparr>\<rparr>\<rparr>"
  by (simp add: createMap_def L_heatLayer_def L_geoJSON_def)

section \<open>Order of the two requests\<close>

text \<open>
  C9. In every run of fetchData, whatever the network does, the tectonic-plate request is
  not issued before the earthquake request has resolved, createMap is not called before
  the earthquake response and the tectonic-plate response have both arrived, and a call
  of createMap gets the features of the earthquake response together with the
  tectonic-plate response, never one of them alone.
\<close>

theorem fetch_sequential:
  "only_after (is_Request tectonicUrl) (is_Resolved earthquakeUrl) (fetchData net)
   \<and> only_after is_CreateMap (is_Resolved earthquakeUrl) (fetchData net)
   \<and> only_after is_CreateMap (is_Resolved tectonicUrl) (fetchData net)
   \<and> (CreateMap e t \<in> set (fetchData net) \<longrightarrow>
        (\<exists>r. net earthquakeUrl = Some r \<and> e = features r) \<and> net tectonicUrl = Some t)"
  using urls_differ
  by (auto simp: fetchData_def d3_json_then_def only_after_def Let_def split: option.splits)

theorem fetch_sequential_witness:
  "fetchData both_resolve =
     [Request earthquakeUrl,
      Resolved earthquakeUrl \<lparr>features = [bay_area], content = ()\<rparr>,
      Request tectonicUrl,
      Resolved tectonicUrl \<lparr>features = [], content = ()\<rparr>,
      CreateMap [bay_area] \<lparr>features = [], content = ()\<rparr>]
   \<and> only_after is_CreateMap (is_Resolved tectonicUrl) (fetchData both_resolve)
   \<and> both_resolve tectonicUrl = Some \<lparr>features = [], content = ()\<rparr>"
proof -
  have tr: "fetchData both_resolve =
     [Request earthquakeUrl,
      Resolved earthquakeUrl \<lparr>features = [bay_area], content = ()\<rparr>,
      Request tectonicUrl,
      Resolved tectonicUrl \<lparr>features = [], content = ()\<rparr>,
      CreateMap [bay_area] \<lparr>features = [], content = ()\<rparr>]"
    using urls_differ
    by (simp add: fetchData_def d3_json_then_def both_resolve_def Let_def)
  then have "CreateMap [bay_area] \<lparr>features = [], content = ()\<rparr> \<in> set (fetchData both_resolve)"
    by simp
  with fetch_sequential [of both_resolve "[bay_area]" "\<lparr>features = [], content = ()\<rparr>"] tr
  show ?thesis by simp
qed

section \<open>Features without properties\<close>

text \<open>
  C10. A feature whose geometry is present and whose properties are absent makes the
  transform fail with a TypeError: it is neither skipped nor drawn, and no overlays are
  produced for the list it is in. So a transform that returns has properties on every
  feature with a geometry. Only a missing geometry is skipped silently.
\<close>

theorem missing_properties_throws:
  "(f \<in> set fs \<and> geometry f \<noteq> None \<and> properties f = None \<longrightarrow>
      createMap fs g = Inl TypeError)
   \<and> (createMap fs g = Inr v \<longrightarrow>
        (\<forall>f\<in>set fs. geometry f \<noteq> None \<longrightarrow> properties f \<noteq> None))
   \<and> (geometry f = None \<longrightarrow> forEach_callback s f = Inr s)"
proof -
  have a: "createMap fs g = Inl TypeError"
    if "f \<in> set fs" "geometry f \<noteq> None" "properties f = None" for f
  proof -
    from that have "\<not> well_formed f"
      by (auto simp: well_formed_def split: option.splits)
    with that(1) show ?thesis by (simp add: createMap_def forEach_ill_formed)
  qed
  then have b: "\<forall>f\<in>set fs. geometry f \<noteq> None \<longrightarrow> properties f \<noteq> None"
    if "createMap fs g = Inr v" using that by fastforce
  from a b callback_skip show ?thesis by blast
qed

theorem missing_properties_throws_witness:
  "geometry no_properties \<noteq> None \<and> properties no_properties = None
   \<and> createMap [bay_area, no_properties, no_geometry] () = Inl TypeError"
proof -
  have h: "no_properties \<in> set [bay_area, no_properties, no_geometry]"
    "geometry no_properties \<noteq> None" "properties no_properties = None"
    by (simp_all add: no_properties_def)
  with missing_properties_throws
         [of no_properties "[bay_area, no_properties, no_geometry]" "()"]
  show ?thesis by blast
qed

end
